theory Spec2Isabelle
  imports Complex_Main
begin

unbundle bit_operations_syntax

section \<open>Machine integers of the C sources\<close>

text \<open>
  The sources compute on C \<open>int\<close>. The model computes on \<open>int\<close> and makes the two
  places where C differs explicit: \<open>/\<close> and \<open>%\<close> truncate towards zero, and a signed
  result outside the 32-bit range is undefined behaviour, here the value \<open>None\<close>.
\<close>

definition INT_MAX :: int where
  "INT_MAX = 2147483647"

definition INT_MIN :: int where
  "INT_MIN = - 2147483648"

definition chk_int :: "int \<Rightarrow> int option" where
  "chk_int x = (if INT_MIN \<le> x \<and> x \<le> INT_MAX then Some x else None)"

definition c_div :: "int \<Rightarrow> int \<Rightarrow> int" where
  "c_div a b = sgn a * sgn b * (\<bar>a\<bar> div \<bar>b\<bar>)"

definition c_mod :: "int \<Rightarrow> int \<Rightarrow> int" where
  "c_mod a b = a - b * c_div a b"

section \<open>Level-set discretization: materials (common/mmg2.c)\<close>

subsection \<open>Data\<close>

text \<open>
  Modelled from the spec: the sign constants \<open>MG_PLUS\<close> and \<open>MG_MINUS\<close> are macros of
  a header that is not among the source files. The spec calls them mutually
  exclusive small constants held in the low two bits of a table entry, beside
  \<open>NONE = 0\<close>; the source stores "the nosplit/split/plus/minus attribute" in those two
  bits, nosplit and split being the values 0 and 1 of \<open>dospl\<close>. They are the two
  values left, 2 for \<open>MG_PLUS\<close> and 3 for \<open>MG_MINUS\<close>; the claims are symmetric in the
  two.
\<close>

definition MG_PLUS :: int where
  "MG_PLUS = 2"

definition MG_MINUS :: int where
  "MG_MINUS = 3"

text \<open>
  Modelled from the spec: the structures \<open>MMG5_Mat\<close>, \<open>MMG5_InvMat\<close> and the part
  \<open>info\<close> of the mesh are declared in headers that are not among the source files.
  A material has an original reference, the flag "does this region split" and
  the interior and exterior child references. The table has its offset, its size and
  the array \<open>lookup\<close>. The array \<open>mat\<close> and its length \<open>nmat\<close> are one list;
  \<open>nmati\<close> counts the materials that have been set.
\<close>

record Mat =
  ref :: int
  dospl :: bool
  rin :: int
  rex :: int

record InvMat =
  offset :: int
  size_im :: int
  lookup :: "int list"

record Info =
  nmati :: int
  mat :: "Mat list"
  invmat :: InvMat

definition nmat :: "Info \<Rightarrow> int" where
  "nmat minfo = int (length (mat minfo))"

text \<open>
  What a function of the source can do besides returning: stop the process
  (a failed \<open>assert\<close>, a call of \<open>exit\<close>), or run into undefined behaviour
  (signed overflow, an index outside its array).
\<close>

datatype 'a outcome = Return 'a | Halt | Undefined

subsection \<open>The lookup table\<close>

text \<open>Reading and writing \<open>pim->lookup[key]\<close>; an index outside the array is \<open>None\<close>.\<close>

definition lookup_rd :: "InvMat \<Rightarrow> int \<Rightarrow> int option" where
  "lookup_rd pim key =
     (if 0 \<le> key \<and> key < int (length (lookup pim))
      then Some (lookup pim ! nat key) else None)"

definition lookup_wr :: "InvMat \<Rightarrow> int \<Rightarrow> int \<Rightarrow> InvMat option" where
  "lookup_wr pim key x =
     (if 0 \<le> key \<and> key < int (length (lookup pim))
      then Some (pim\<lparr>lookup := (lookup pim)[nat key := x]\<rparr>) else None)"

definition MMG5_InvMat_key :: "InvMat \<Rightarrow> int \<Rightarrow> int option" where
  "MMG5_InvMat_key pim r = chk_int (r - offset pim)"

text \<open>The entry \<open>4*(ref+1)+tag\<close> of a child, each operation within the range of \<open>int\<close>.\<close>

definition packed :: "int \<Rightarrow> int \<Rightarrow> int option" where
  "packed r tg =
     (case chk_int (r + 1) of None \<Rightarrow> None
      | Some a \<Rightarrow> (case chk_int (4 * a) of None \<Rightarrow> None
      | Some b \<Rightarrow> chk_int (b + tg)))"

text \<open>
  The assignment \<open>pim->lookup[MMG5_InvMat_key(pim,r)] = x\<close>: undefined when the key or
  the value \<open>x\<close> is, or when the key is outside the array.
\<close>

definition store_at :: "InvMat \<Rightarrow> int \<Rightarrow> int option \<Rightarrow> InvMat option" where
  "store_at pim r x =
     (case MMG5_InvMat_key pim r of None \<Rightarrow> None
      | Some key \<Rightarrow> (case x of None \<Rightarrow> None
      | Some y \<Rightarrow> lookup_wr pim key y))"

definition MMG5_InvMat_set :: "InvMat \<Rightarrow> Mat \<Rightarrow> InvMat option" where
  "MMG5_InvMat_set pim pm =
     (case store_at pim (ref pm) (Some (if dospl pm then 1 else 0)) of None \<Rightarrow> None
      | Some p1 \<Rightarrow>
          if dospl pm then
            (case store_at p1 (rin pm) (packed (ref pm) MG_MINUS) of None \<Rightarrow> None
             | Some p2 \<Rightarrow> store_at p2 (rex pm) (packed (ref pm) MG_PLUS))
          else Some p1)"

definition MMG5_InvMat_getParent :: "InvMat \<Rightarrow> int \<Rightarrow> int option" where
  "MMG5_InvMat_getParent pim r =
     (case MMG5_InvMat_key pim r of None \<Rightarrow> None
      | Some key \<Rightarrow> (case lookup_rd pim key of None \<Rightarrow> None
      | Some x \<Rightarrow> Some (c_div x 4 - 1)))"

definition MMG5_InvMat_getTag :: "InvMat \<Rightarrow> int \<Rightarrow> int option" where
  "MMG5_InvMat_getTag pim r =
     (case MMG5_InvMat_key pim r of None \<Rightarrow> None
      | Some key \<Rightarrow> (case lookup_rd pim key of None \<Rightarrow> None
      | Some x \<Rightarrow> Some (c_mod x 4)))"

subsection \<open>Building the table\<close>

text \<open>The first loop of \<open>MMG5_MultiMat_init\<close>: the pair is \<open>(refmax, refmin)\<close>.\<close>

fun minmax_loop :: "Mat list \<Rightarrow> int \<times> int \<Rightarrow> int \<times> int" where
  "minmax_loop [] acc = acc"
| "minmax_loop (pm # pms) (refmax, refmin) =
     (let refmax1 = (if ref pm > refmax then ref pm else refmax);
          refmin1 = (if ref pm < refmin then ref pm else refmin)
      in if \<not> dospl pm then minmax_loop pms (refmax1, refmin1)
         else
           (let refmax2 = (if rin pm > refmax1 then rin pm else refmax1);
                refmin2 = (if rin pm < refmin1 then rin pm else refmin1);
                refmax3 = (if rex pm > refmax2 then rex pm else refmax2);
                refmin3 = (if rex pm < refmin2 then rex pm else refmin2)
            in minmax_loop pms (refmax3, refmin3)))"

text \<open>The second loop: \<open>MMG5_InvMat_set\<close> for every material, in the order of the array.\<close>

fun fill_loop :: "InvMat \<Rightarrow> Mat list \<Rightarrow> InvMat option" where
  "fill_loop pim [] = Some pim"
| "fill_loop pim (pm # pms) =
     (case MMG5_InvMat_set pim pm of None \<Rightarrow> None
      | Some p \<Rightarrow> fill_loop p pms)"

text \<open>
  \<open>MMG5_MultiMat_init\<close>. The macros \<open>MMG5_ADD_MEM\<close> and \<open>MMG5_SAFE_CALLOC\<close> are not
  among the source files: whether the memory for \<open>n\<close> integers is granted is the
  parameter \<open>alloc\<close>. The result is the returned integer and the mesh information
  as the call leaves it.
\<close>

definition MMG5_MultiMat_init :: "(nat \<Rightarrow> bool) \<Rightarrow> Info \<Rightarrow> (int \<times> Info) outcome" where
  "MMG5_MultiMat_init alloc minfo =
     (if nmat minfo = 0 then Return (1, minfo)
      else if nmati minfo < nmat minfo then Return (0, minfo)
      else
        (case minmax_loop (mat minfo) (0, INT_MAX) of (refmax, refmin) \<Rightarrow>
           (case chk_int (refmax - refmin) of None \<Rightarrow> Undefined
            | Some d \<Rightarrow> (case chk_int (d + 1) of None \<Rightarrow> Undefined
            | Some sz \<Rightarrow>
                (let pim = (invmat minfo)\<lparr>offset := refmin, size_im := sz\<rparr>
                 in if \<not> sz > 0 then Halt
                    else if \<not> alloc (nat sz) then Return (0, minfo\<lparr>invmat := pim\<rparr>)
                    else
                      (case fill_loop (pim\<lparr>lookup := replicate (nat sz) 0\<rparr>) (mat minfo) of
                         None \<Rightarrow> Undefined
                       | Some pim' \<Rightarrow> Return (1, minfo\<lparr>invmat := pim'\<rparr>)))))))"

subsection \<open>The split policy\<close>

text \<open>
  \<open>MMG5_isSplit\<close>: the loop over the materials, then the default. The arguments
  \<open>refint\<close> and \<open>refext\<close> are what the two output locations hold before the call;
  the result is the returned integer and what they hold after it.
\<close>

fun isSplit_loop :: "Mat list \<Rightarrow> int \<Rightarrow> int \<Rightarrow> int \<Rightarrow> int \<times> int \<times> int" where
  "isSplit_loop [] r refint refext = (1, MG_MINUS, MG_PLUS)"
| "isSplit_loop (pm # pms) r refint refext =
     (if ref pm = r then
        (if \<not> dospl pm then (0, refint, refext)
         else (1, rin pm, rex pm))
      else isSplit_loop pms r refint refext)"

definition MMG5_isSplit :: "Info \<Rightarrow> int \<Rightarrow> int \<Rightarrow> int \<Rightarrow> int \<times> int \<times> int" where
  "MMG5_isSplit minfo r refint refext = isSplit_loop (mat minfo) r refint refext"

definition MMG5_isNotSplit :: "Info \<Rightarrow> int \<Rightarrow> int option" where
  "MMG5_isNotSplit minfo r =
     (if nmat minfo = 0 then Some 0
      else (case MMG5_InvMat_getTag (invmat minfo) r of None \<Rightarrow> None
            | Some t \<Rightarrow> if t = 0 then Some 0 else Some 1))"

definition MMG5_isLevelSet :: "Info \<Rightarrow> int \<Rightarrow> int \<Rightarrow> int option" where
  "MMG5_isLevelSet minfo ref0 ref1 =
     (case MMG5_InvMat_getTag (invmat minfo) ref0 of None \<Rightarrow> None
      | Some found0 \<Rightarrow> (case MMG5_InvMat_getTag (invmat minfo) ref1 of None \<Rightarrow> None
      | Some found1 \<Rightarrow>
          if found0 + found1 = MG_MINUS + MG_PLUS then Some 1 else Some 0))"

definition MMG5_getIniRef :: "Info \<Rightarrow> int \<Rightarrow> int option" where
  "MMG5_getIniRef minfo r =
     (if nmat minfo = 0 then Some 0
      else (case MMG5_InvMat_getParent (invmat minfo) r of None \<Rightarrow> None
            | Some k \<Rightarrow> if k = - 1 then Some r else Some k))"

text \<open>
  In \<open>MMG5_isLevelSet\<close> the two tags are kept in \<open>int8_t\<close> variables: a tag is a
  remainder of a division by 4, so the conversion changes nothing.
\<close>

subsection \<open>Notions used to state the properties of the table\<close>

text \<open>
  The references a material writes into the table: its children if it splits, and its
  own reference. \<open>slot\<close> is the entry the table holds for a reference.
\<close>

definition children :: "Mat \<Rightarrow> int list" where
  "children pm = (if dospl pm then [rin pm, rex pm] else [])"

definition declared :: "Mat \<Rightarrow> int list" where
  "declared pm = ref pm # children pm"

definition slot :: "InvMat \<Rightarrow> int \<Rightarrow> int option" where
  "slot pim r =
     (case MMG5_InvMat_key pim r of None \<Rightarrow> None
      | Some key \<Rightarrow> lookup_rd pim key)"

text \<open>
  A table whose array has \<open>size\<close> entries, and a reference inside its range
  \<open>[offset, offset + size)\<close>.
\<close>

definition table_ok :: "InvMat \<Rightarrow> bool" where
  "table_ok pim \<longleftrightarrow> size_im pim = int (length (lookup pim)) \<and> size_im pim \<le> INT_MAX"

definition in_table :: "InvMat \<Rightarrow> int \<Rightarrow> bool" where
  "in_table pim r \<longleftrightarrow> offset pim \<le> r \<and> r < offset pim + size_im pim"

text \<open>
  Two materials clash when they have the same original reference or when a child of
  one is a reference the other declares. A list is collision free when no two of its
  materials clash and no material has one reference for both children: what is left
  is a child equal to the reference of its own parent.
\<close>

definition clash :: "Mat \<Rightarrow> Mat \<Rightarrow> bool" where
  "clash a b \<longleftrightarrow>
     ref a = ref b \<or> set (children a) \<inter> set (declared b) \<noteq> {} \<or>
     set (children b) \<inter> set (declared a) \<noteq> {}"

definition collision_free :: "Mat list \<Rightarrow> bool" where
  "collision_free pms \<longleftrightarrow>
     sorted_wrt (\<lambda>a b. \<not> clash a b) pms \<and> (\<forall>pm\<in>set pms. dospl pm \<longrightarrow> rin pm \<noteq> rex pm)"

text \<open>A reference that can be a parent: not negative, and its entry fits an \<open>int\<close>.\<close>

definition packable :: "int \<Rightarrow> bool" where
  "packable r \<longleftrightarrow> 0 \<le> r \<and> 4 * (r + 1) + MG_MINUS \<le> INT_MAX"

subsection \<open>Material lists of the examples\<close>

definition alloc_always :: "nat \<Rightarrow> bool" where
  "alloc_always n = True"

definition no_table :: InvMat where
  "no_table = \<lparr>offset = 0, size_im = 0, lookup = []\<rparr>"

definition info_none :: Info where
  "info_none = \<lparr>nmati = 0, mat = [], invmat = no_table\<rparr>"

definition mats_ex :: "Mat list" where
  "mats_ex = [\<lparr>ref = 1, dospl = True, rin = 10, rex = 11\<rparr>,
              \<lparr>ref = 2, dospl = False, rin = 0, rex = 0\<rparr>]"

definition info_ex :: Info where
  "info_ex = \<lparr>nmati = 2, mat = mats_ex, invmat = no_table\<rparr>"

definition built_ex :: Info where
  "built_ex = \<lparr>nmati = 2, mat = mats_ex,
      invmat = \<lparr>offset = 1, size_im = 11, lookup = [1, 0, 0, 0, 0, 0, 0, 0, 0, 11, 10]\<rparr>\<rparr>"

definition mats_neg :: "Mat list" where
  "mats_neg = [\<lparr>ref = - 2, dospl = True, rin = - 3, rex = - 4\<rparr>]"

definition info_neg :: Info where
  "info_neg = \<lparr>nmati = 1, mat = mats_neg, invmat = no_table\<rparr>"

definition built_neg :: Info where
  "built_neg = \<lparr>nmati = 1, mat = mats_neg,
      invmat = \<lparr>offset = - 4, size_im = 5, lookup = [- 2, - 1, 1, 0, 0]\<rparr>\<rparr>"

definition mats_dup :: "Mat list" where
  "mats_dup = [\<lparr>ref = 1, dospl = True, rin = 10, rex = 11\<rparr>,
               \<lparr>ref = 2, dospl = True, rin = 10, rex = 12\<rparr>]"

definition info_dup :: Info where
  "info_dup = \<lparr>nmati = 2, mat = mats_dup, invmat = no_table\<rparr>"

definition built_dup :: Info where
  "built_dup = \<lparr>nmati = 2, mat = mats_dup,
      invmat = \<lparr>offset = 1, size_im = 12, lookup = [1, 1, 0, 0, 0, 0, 0, 0, 0, 15, 10, 14]\<rparr>\<rparr>"

text \<open>Two materials with the same original reference, in the two orders.\<close>

definition mats_rep :: "Mat list" where
  "mats_rep = [\<lparr>ref = 1, dospl = False, rin = 0, rex = 0\<rparr>,
               \<lparr>ref = 1, dospl = True, rin = 10, rex = 11\<rparr>]"

definition info_rep :: Info where
  "info_rep = \<lparr>nmati = 2, mat = mats_rep, invmat = no_table\<rparr>"

definition info_per :: Info where
  "info_per = \<lparr>nmati = 2, mat = rev mats_rep, invmat = no_table\<rparr>"

section \<open>Metric interpolation (mmg3d/intmet.c)\<close>

subsection \<open>Data\<close>

text \<open>
  A \<open>double\<close> is a value of a type \<open>'d\<close> that has the operations the source uses
  (\<open>1\<close>, \<open>+\<close>, \<open>-\<close>, \<open>*\<close>, \<open>fabs\<close>, \<open><\<close>); no law of arithmetic is assumed of
  them, so what is proved holds of floating point numbers as of the reals.

  Modelled from the spec: the structures of the mesh and of the metric are declared in
  headers that are not among the source files. The model keeps the fields the two
  files read: the vertices of a tetrahedron and its index \<open>xt\<close> into the boundary
  data (0: none), the tags of the edges and of the faces of a boundary tetrahedron,
  the tag of a point and its index \<open>xp\<close>, the first normal at a boundary point, and
  the array \<open>m\<close> of the metric with the number \<open>size\<close> of entries per point. The
  arrays of the mesh are functions of the index. Where the name of a field is taken
  (\<open>size\<close>) or would hide the variables of the same name (\<open>m\<close>, \<open>v\<close>, \<open>tag\<close> of a
  point), it carries a suffix: \<open>size_sol\<close>, \<open>m_sol\<close>, \<open>v_tet\<close>, \<open>tag_pt\<close>, as
  \<open>size_im\<close> in the table of the materials.
\<close>

record Tetra =
  v_tet :: "nat list"
  xt :: nat

record xTetra =
  tag :: "int list"
  ftag :: "int list"

record Point =
  tag_pt :: int
  xp :: nat

record 'd xPoint =
  n1 :: "'d list"

record 'd Mesh =
  tetra :: "nat \<Rightarrow> Tetra"
  xtetra :: "nat \<Rightarrow> xTetra"
  point :: "nat \<Rightarrow> Point"
  xpoint :: "nat \<Rightarrow> 'd xPoint"

record 'd Sol =
  m_sol :: "nat \<Rightarrow> 'd"
  size_sol :: nat

text \<open>
  What the two files use and do not define is a parameter: the bit masks of the tags
  and the macro \<open>MG_SIN\<close>, the tables \<open>_MMG5_iare\<close>, \<open>_MMG5_ifar\<close> and
  \<open>_MMG5_iarfinv\<close>, the constant \<open>1e-6\<close>, and the routines \<open>_MMG5_invmat\<close>,
  \<open>_MMG5_moymet\<close>, \<open>_MMG5_intridmet\<close>, \<open>_MMG5_tet2tri\<close> and \<open>_MMG5_interpreg_ani\<close>.
  A routine that fills a tensor returns it, \<open>None\<close> when it returns 0; a routine that is
  given the address \<open>mr\<close> of the result in the array of the metric returns its
  integer and the metric as it leaves it. The names of the source that start with an
  underscore are written without it.
\<close>

record ('d, 't) Env =
  MG_GEO :: int
  MG_BDY :: int
  MG_NOM :: int
  MG_SIN :: "int \<Rightarrow> bool"
  iare :: "nat \<Rightarrow> nat \<Rightarrow> nat"
  ifar :: "nat \<Rightarrow> nat \<Rightarrow> nat"
  iarfinv :: "nat \<Rightarrow> nat \<Rightarrow> int"
  tiny :: 'd
  MMG5_invmat :: "'d list \<Rightarrow> 'd list option"
  MMG5_moymet :: "'d Mesh \<Rightarrow> 'd Sol \<Rightarrow> Tetra \<Rightarrow> 'd list option"
  MMG5_intridmet ::
    "'d Mesh \<Rightarrow> 'd Sol \<Rightarrow> nat \<Rightarrow> nat \<Rightarrow> 'd \<Rightarrow> 'd list \<Rightarrow> nat \<Rightarrow> int \<times> 'd Sol"
  MMG5_tet2tri :: "'d Mesh \<Rightarrow> nat \<Rightarrow> nat \<Rightarrow> 't"
  MMG5_interpreg_ani ::
    "'d Mesh \<Rightarrow> 'd Sol \<Rightarrow> 't \<Rightarrow> int \<Rightarrow> 'd \<Rightarrow> nat \<Rightarrow> int \<times> 'd Sol"

text \<open>The six entries at an address of the array of the metric, read and written.\<close>

definition slot6 :: "'d Sol \<Rightarrow> nat \<Rightarrow> 'd list" where
  "slot6 met a = map (\<lambda>i. m_sol met (a + i)) [0..<6]"

definition put6 :: "'d Sol \<Rightarrow> nat \<Rightarrow> 'd list \<Rightarrow> 'd Sol" where
  "put6 met a xs = met\<lparr>m_sol := fold (\<lambda>i f. f(a + i := xs ! i)) [0..<6] (m_sol met)\<rparr>"

subsection \<open>Interpolation along an edge\<close>

text \<open>
  \<open>_MMG5_intregvolmet\<close>: \<open>ma\<close> and \<open>mb\<close> are copied before anything is written, so
  they are passed as the six values they point to; \<open>mp\<close> is the address of the
  result in the array of the metric.
\<close>

definition MMG5_intregvolmet ::
  "('d::{one,plus,minus,times} list \<Rightarrow> 'd list option) \<Rightarrow> 'd list \<Rightarrow> 'd list \<Rightarrow> 'd Sol \<Rightarrow>
     nat \<Rightarrow> 'd \<Rightarrow> int \<times> 'd Sol" where
  "MMG5_intregvolmet invm ma mb met mp t =
     (let dma = map (\<lambda>i. ma ! i) [0..<6];
          dmb = map (\<lambda>i. mb ! i) [0..<6]
      in case invm dma of None \<Rightarrow> (0, met)
         | Some mai \<Rightarrow>
             (case invm dmb of None \<Rightarrow> (0, met)
              | Some mbi \<Rightarrow>
                  (let mi = map (\<lambda>i. (1 - t) * mai ! i + t * mbi ! i) [0..<6]
                   in case invm mi of None \<Rightarrow> (0, met)
                      | Some mai' \<Rightarrow> (1, put6 met mp mai'))))"

text \<open>
  The tensor of an end point of the edge in \<open>_MMG5_intvolmet\<close>: the source writes
  these lines once for each end. \<open>None\<close> is the \<open>return(0)\<close> after a failed
  \<open>_MMG5_moymet\<close>.
\<close>

definition resolve_end ::
  "('d, 't) Env \<Rightarrow> 'd Mesh \<Rightarrow> 'd Sol \<Rightarrow> Tetra \<Rightarrow> nat \<Rightarrow> 'd list option" where
  "resolve_end env mesh met pt ip =
     (let pp = point mesh ip
      in if MG_SIN env (tag_pt pp) \<or> MG_NOM env AND tag_pt pp \<noteq> 0
         then Some (slot6 met (6 * ip))
         else if tag_pt pp AND MG_GEO env \<noteq> 0 then MMG5_moymet env mesh met pt
         else Some (slot6 met (6 * ip)))"

text \<open>
  \<open>_MMG5_intvolmet\<close>. The integer that \<open>_MMG5_intregvolmet\<close> returns is not looked
  at; the test on \<open>mr[5]\<close> ends in \<open>exit(0)\<close>.
\<close>

definition MMG5_intvolmet ::
  "('d::{one,plus,minus,times,abs,ord}, 't) Env \<Rightarrow> 'd Mesh \<Rightarrow> 'd Sol \<Rightarrow> nat \<Rightarrow> nat \<Rightarrow> 'd \<Rightarrow>
     nat \<Rightarrow> (int \<times> 'd Sol) outcome" where
  "MMG5_intvolmet env mesh met k i s mr =
     (let pt = tetra mesh k;
          ip1 = v_tet pt ! iare env i 0;
          ip2 = v_tet pt ! iare env i 1
      in case resolve_end env mesh met pt ip1 of None \<Rightarrow> Return (0, met)
         | Some m1 \<Rightarrow>
             (case resolve_end env mesh met pt ip2 of None \<Rightarrow> Return (0, met)
              | Some m2 \<Rightarrow>
                  (case MMG5_intregvolmet (MMG5_invmat env) m1 m2 met mr s of
                     (ret, met') \<Rightarrow>
                       if \<bar>m_sol met' (mr + 5)\<bar> < tiny env then Halt
                       else Return (1, met'))))"

definition MMG5_intregmet ::
  "('d, 't) Env \<Rightarrow> 'd Mesh \<Rightarrow> 'd Sol \<Rightarrow> nat \<Rightarrow> nat \<Rightarrow> 'd \<Rightarrow> nat \<Rightarrow> (int \<times> 'd Sol) outcome" where
  "MMG5_intregmet env mesh met k i s mr =
     (let pt = tetra mesh k;
          pxt = xtetra mesh (xt pt);
          ifa0 = ifar env i 0;
          ifa1 = ifar env i 1
      in if ftag pxt ! ifa0 AND MG_BDY env \<noteq> 0 then
           (let ptt = MMG5_tet2tri env mesh k ifa0;
                iloc = iarfinv env ifa0 i
            in if \<not> iloc \<ge> 0 then Halt
               else Return (MMG5_interpreg_ani env mesh met ptt iloc s mr))
         else if ftag pxt ! ifa1 AND MG_BDY env \<noteq> 0 then
           (let ptt = MMG5_tet2tri env mesh k ifa1;
                iloc = iarfinv env ifa1 i
            in if \<not> iloc \<ge> 0 then Halt
               else Return (MMG5_interpreg_ani env mesh met ptt iloc s mr))
         else Return (- 1, met))"

text \<open>\<open>_MMG5_intmet_ani\<close>: \<open>m\<close> is the address \<open>6*ip\<close> of the metric of the new point.\<close>

definition MMG5_intmet_ani ::
  "('d::{one,plus,minus,times,abs,ord}, 't) Env \<Rightarrow> 'd Mesh \<Rightarrow> 'd Sol \<Rightarrow> nat \<Rightarrow> nat \<Rightarrow> nat \<Rightarrow>
     'd \<Rightarrow> (int \<times> 'd Sol) outcome" where
  "MMG5_intmet_ani env mesh met k i ip s =
     (let pt = tetra mesh k;
          m = 6 * ip;
          ip1 = v_tet pt ! iare env i 0;
          ip2 = v_tet pt ! iare env i 1
      in if xt pt \<noteq> 0 then
           (let pxt = xtetra mesh (xt pt)
            in if tag pxt ! i AND MG_GEO env \<noteq> 0 then
                 (let ppt = point mesh ip
                  in if xp ppt = 0 then Halt
                     else (let pxp = xpoint mesh (xp ppt)
                           in Return (MMG5_intridmet env mesh met ip1 ip2 s (n1 pxp) m)))
               else if tag pxt ! i AND MG_BDY env \<noteq> 0 then MMG5_intregmet env mesh met k i s m
               else MMG5_intvolmet env mesh met k i s m)
         else MMG5_intvolmet env mesh met k i s m)"

subsection \<open>Interpolation in a tetrahedron\<close>

definition MMG5_interp4barintern ::
  "('d::{plus,times} list \<Rightarrow> 'd list option) \<Rightarrow> 'd Sol \<Rightarrow> nat \<Rightarrow> 'd list \<Rightarrow>
     'd list \<Rightarrow> 'd list \<Rightarrow> 'd list \<Rightarrow> 'd list \<Rightarrow> int \<times> 'd Sol" where
  "MMG5_interp4barintern invm met ip cb dm0 dm1 dm2 dm3 =
     (case invm dm0 of None \<Rightarrow> (0, met)
      | Some m0i \<Rightarrow> (case invm dm1 of None \<Rightarrow> (0, met)
      | Some m1i \<Rightarrow> (case invm dm2 of None \<Rightarrow> (0, met)
      | Some m2i \<Rightarrow> (case invm dm3 of None \<Rightarrow> (0, met)
      | Some m3i \<Rightarrow>
          (let mi = map (\<lambda>i. cb ! 0 * m0i ! i + cb ! 1 * m1i ! i + cb ! 2 * m2i ! i +
                              cb ! 3 * m3i ! i) [0..<6]
           in case invm mi of None \<Rightarrow> (0, met)
              | Some m0i' \<Rightarrow> (1, put6 met (size_sol met * ip) m0i'))))))"

subsection \<open>The interpolation as the specification words it\<close>

text \<open>
  \<open>blend(a, b, t) = (1-t)*a + t*b\<close> entry by entry; along an edge, the inverse of the
  blend of the two inverses; in a tetrahedron, the inverse of the sum of the four
  inverses weighted by the barycentric coordinates. \<open>None\<close> is a failed inversion.
\<close>

definition blend :: "'d::{one,plus,minus,times} list \<Rightarrow> 'd list \<Rightarrow> 'd \<Rightarrow> 'd list" where
  "blend a b t = map2 (\<lambda>x y. (1 - t) * x + t * y) a b"

definition edge_blend_spec ::
  "('d::{one,plus,minus,times} list \<Rightarrow> 'd list option) \<Rightarrow> 'd list \<Rightarrow> 'd list \<Rightarrow> 'd \<Rightarrow>
     'd list option" where
  "edge_blend_spec invert A B s =
     (case invert A of None \<Rightarrow> None
      | Some Ai \<Rightarrow> (case invert B of None \<Rightarrow> None
      | Some Bi \<Rightarrow> invert (blend Ai Bi s)))"

definition weighted4 ::
  "'d::{plus,times} list \<Rightarrow> 'd list \<Rightarrow> 'd list \<Rightarrow> 'd list \<Rightarrow> 'd list \<Rightarrow> 'd list" where
  "weighted4 cb a b c d =
     map (\<lambda>(w, x, y, z). cb ! 0 * w + cb ! 1 * x + cb ! 2 * y + cb ! 3 * z)
       (zip a (zip b (zip c d)))"

definition bary_blend_spec ::
  "('d::{plus,times} list \<Rightarrow> 'd list option) \<Rightarrow> 'd list \<Rightarrow> 'd list \<Rightarrow> 'd list \<Rightarrow> 'd list \<Rightarrow>
     'd list \<Rightarrow> 'd list option" where
  "bary_blend_spec invert cb M0 M1 M2 M3 =
     (case invert M0 of None \<Rightarrow> None
      | Some I0 \<Rightarrow> (case invert M1 of None \<Rightarrow> None
      | Some I1 \<Rightarrow> (case invert M2 of None \<Rightarrow> None
      | Some I2 \<Rightarrow> (case invert M3 of None \<Rightarrow> None
      | Some I3 \<Rightarrow> invert (weighted4 cb I0 I1 I2 I3)))))"

subsection \<open>A mesh and a metric for the examples\<close>

text \<open>
  An inversion for the examples: it inverts the diagonal tensors and fails on every
  other one. The mesh has one shape of tetrahedron, with vertices 1 to 4, ordinary
  points, the boundary index \<open>x\<close> and the tag \<open>etag\<close> on its first edge; the metric
  has the null tensor at point 1, the identity at point 2 and \<open>old\<close> in the six
  entries of point 5.
\<close>

definition inv_diag :: "real list \<Rightarrow> real list option" where
  "inv_diag x =
     (if length x = 6 \<and> x ! 1 = 0 \<and> x ! 2 = 0 \<and> x ! 4 = 0 \<and>
         x ! 0 \<noteq> 0 \<and> x ! 3 \<noteq> 0 \<and> x ! 5 \<noteq> 0
      then Some [1 / x ! 0, 0, 0, 1 / x ! 3, 0, 1 / x ! 5] else None)"

definition env_ex :: "(real, unit) Env" where
  "env_ex = \<lparr>MG_GEO = 2, MG_BDY = 16, MG_NOM = 8, MG_SIN = (\<lambda>t. t AND 36 \<noteq> 0),
     iare = (\<lambda>i j. [[0, 1], [0, 2], [0, 3], [1, 2], [1, 3], [2, 3]] ! i ! j),
     ifar = (\<lambda>i j. [[2, 3], [1, 3], [1, 2], [0, 3], [0, 2], [0, 1]] ! i ! j),
     iarfinv = (\<lambda>f e. - 1),
     tiny = 1 / 1000000,
     MMG5_invmat = inv_diag,
     MMG5_moymet = (\<lambda>mesh met pt. None),
     MMG5_intridmet = (\<lambda>mesh met ip1 ip2 s n mr. (0, met)),
     MMG5_tet2tri = (\<lambda>mesh k f. ()),
     MMG5_interpreg_ani = (\<lambda>mesh met ptt iloc s mr. (0, met))\<rparr>"

definition mesh_ex :: "nat \<Rightarrow> int \<Rightarrow> real Mesh" where
  "mesh_ex x etag =
     \<lparr>tetra = (\<lambda>k. \<lparr>v_tet = [1, 2, 3, 4], xt = x\<rparr>),
      xtetra = (\<lambda>k. \<lparr>tag = [etag, 0, 0, 0, 0, 0], ftag = [0, 0, 0, 0]\<rparr>),
      point = (\<lambda>k. \<lparr>tag_pt = 0, xp = 0\<rparr>),
      xpoint = (\<lambda>k. \<lparr>n1 = [0, 0, 1]\<rparr>)\<rparr>"

definition met_ex :: "real \<Rightarrow> real Sol" where
  "met_ex old =
     \<lparr>m_sol = (\<lambda>j. if j = 12 \<or> j = 15 \<or> j = 17 then 1
                     else if 30 \<le> j \<and> j < 36 then old else 0),
      size_sol = 6\<rparr>"

section \<open>Properties of the material table\<close>

subsection \<open>Reading and writing one entry\<close>

lemma getTag_slot: "MMG5_InvMat_getTag pim r = map_option (\<lambda>x. c_mod x 4) (slot pim r)"
  by (simp add: MMG5_InvMat_getTag_def slot_def split: option.splits)

lemma getParent_slot: "MMG5_InvMat_getParent pim r = map_option (\<lambda>x. c_div x 4 - 1) (slot pim r)"
  by (simp add: MMG5_InvMat_getParent_def slot_def split: option.splits)

lemma store_at_shape:
  assumes "store_at pim r x = Some p"
  shows "offset p = offset pim \<and> size_im p = size_im pim \<and> length (lookup p) = length (lookup pim)"
  using assms
  by (auto simp: store_at_def lookup_wr_def split: option.splits if_splits)

lemma store_at_slot:
  assumes "store_at pim r x = Some p"
  shows "slot p r' = (if r' = r then x else slot pim r')"
  using assms
  by (auto simp: store_at_def lookup_wr_def slot_def MMG5_InvMat_key_def chk_int_def lookup_rd_def
      split: option.splits if_splits)

lemma set_shape:
  assumes "MMG5_InvMat_set pim pm = Some p"
  shows "offset p = offset pim \<and> size_im p = size_im pim \<and> length (lookup p) = length (lookup pim)"
  using assms
  by (auto simp: MMG5_InvMat_set_def split: option.splits if_splits dest!: store_at_shape)

lemma set_slot:
  assumes "MMG5_InvMat_set pim pm = Some p"
  shows "slot p r' =
     (if dospl pm \<and> r' = rex pm then packed (ref pm) MG_PLUS
      else if dospl pm \<and> r' = rin pm then packed (ref pm) MG_MINUS
      else if r' = ref pm then Some (if dospl pm then 1 else 0)
      else slot pim r')"
  using assms
  by (auto simp: MMG5_InvMat_set_def store_at_slot split: option.splits if_splits)

lemma set_frame:
  assumes "MMG5_InvMat_set pim pm = Some p" and "r \<notin> set (declared pm)"
  shows "slot p r = slot pim r"
  using assms by (auto simp: set_slot declared_def children_def)

lemma set_packed:
  assumes "MMG5_InvMat_set pim pm = Some p" and "dospl pm"
  shows "packed (ref pm) MG_MINUS = Some (4 * (ref pm + 1) + MG_MINUS) \<and>
         packed (ref pm) MG_PLUS = Some (4 * (ref pm + 1) + MG_PLUS)"
  using assms
  by (auto simp: MMG5_InvMat_set_def store_at_def packed_def chk_int_def split: option.splits if_splits)

subsection \<open>The filling loop\<close>

lemma fill_frame:
  assumes "fill_loop pim pms = Some p" and "\<forall>pm\<in>set pms. r \<notin> set (declared pm)"
  shows "slot p r = slot pim r"
  using assms
proof (induction pms arbitrary: pim)
  case Nil
  then show ?case by simp
next
  case (Cons a pms)
  then show ?case by (auto split: option.splits simp: set_frame)
qed

lemma fill_shape:
  assumes "fill_loop pim pms = Some p"
  shows "offset p = offset pim \<and> size_im p = size_im pim \<and> length (lookup p) = length (lookup pim)"
  using assms
proof (induction pms arbitrary: pim)
  case Nil
  then show ?case by simp
next
  case (Cons a pms)
  then show ?case by (auto split: option.splits dest!: set_shape)
qed

lemma fill_append:
  "fill_loop pim (xs @ ys) = (case fill_loop pim xs of None \<Rightarrow> None | Some p \<Rightarrow> fill_loop p ys)"
  by (induction xs arbitrary: pim) (auto split: option.splits)

lemma slot_in_table:
  assumes "table_ok pim" and "in_table pim r"
  shows "slot pim r = Some (lookup pim ! nat (r - offset pim))"
  using assms
  by (auto simp: table_ok_def in_table_def slot_def MMG5_InvMat_key_def chk_int_def lookup_rd_def
      INT_MIN_def INT_MAX_def)

lemma later_wins_rin:
  assumes "fill_loop pim (pre @ pm # post) = Some p" and "dospl pm" and "rin pm \<noteq> rex pm"
    and "\<forall>b\<in>set post. rin pm \<notin> set (declared b)"
  shows "slot p (rin pm) = Some (4 * (ref pm + 1) + MG_MINUS)"
proof -
  from assms(1) obtain p1 p2 where
    s: "MMG5_InvMat_set p1 pm = Some p2" and f: "fill_loop p2 post = Some p"
    by (auto simp: fill_append split: option.splits)
  have "slot p (rin pm) = slot p2 (rin pm)"
    using f assms(4) by (rule fill_frame)
  also have "\<dots> = packed (ref pm) MG_MINUS"
    using s assms(2,3) by (simp add: set_slot)
  finally show ?thesis
    using set_packed [OF s assms(2)] by simp
qed

lemma later_wins_rex:
  assumes "fill_loop pim (pre @ pm # post) = Some p" and "dospl pm"
    and "\<forall>b\<in>set post. rex pm \<notin> set (declared b)"
  shows "slot p (rex pm) = Some (4 * (ref pm + 1) + MG_PLUS)"
proof -
  from assms(1) obtain p1 p2 where
    s: "MMG5_InvMat_set p1 pm = Some p2" and f: "fill_loop p2 post = Some p"
    by (auto simp: fill_append split: option.splits)
  have "slot p (rex pm) = slot p2 (rex pm)"
    using f assms(3) by (rule fill_frame)
  also have "\<dots> = packed (ref pm) MG_PLUS"
    using s assms(2) by (simp add: set_slot)
  finally show ?thesis
    using set_packed [OF s assms(2)] by simp
qed

lemma later_wins_nosplit:
  assumes "fill_loop pim (pre @ pm # post) = Some p" and "\<not> dospl pm"
    and "\<forall>b\<in>set post. ref pm \<notin> set (declared b)"
  shows "slot p (ref pm) = Some 0"
proof -
  from assms(1) obtain p1 p2 where
    s: "MMG5_InvMat_set p1 pm = Some p2" and f: "fill_loop p2 post = Some p"
    by (auto simp: fill_append split: option.splits)
  have "slot p (ref pm) = slot p2 (ref pm)"
    using f assms(3) by (rule fill_frame)
  also have "\<dots> = Some 0"
    using s assms(2) by (simp add: set_slot)
  finally show ?thesis .
qed

subsection \<open>Unpacking an entry\<close>

lemma unpack_tag:
  assumes "0 \<le> r" and "tg = MG_MINUS \<or> tg = MG_PLUS"
  shows "c_mod (4 * (r + 1) + tg) 4 = tg"
  using assms by (auto simp: c_mod_def c_div_def MG_MINUS_def MG_PLUS_def sgn_if)

lemma unpack_parent:
  assumes "0 \<le> r" and "tg = MG_MINUS \<or> tg = MG_PLUS"
  shows "c_div (4 * (r + 1) + tg) 4 - 1 = r"
  using assms by (auto simp: c_div_def MG_MINUS_def MG_PLUS_def sgn_if)

lemma c_mod_4_bounds: "- 3 \<le> c_mod x 4 \<and> c_mod x 4 \<le> 3"
proof (cases "0 \<le> x")
  case True
  then have "c_mod x 4 = x mod 4"
    by (cases "x = 0") (auto simp: c_mod_def c_div_def sgn_if minus_mult_div_eq_mod)
  moreover have "0 \<le> x mod 4 \<and> x mod 4 < 4" by simp
  ultimately show ?thesis by linarith
next
  case False
  then have "c_mod x 4 = x + 4 * ((- x) div 4)"
    by (auto simp: c_mod_def c_div_def sgn_if)
  moreover have "(- x) mod 4 = - x - 4 * ((- x) div 4)"
    by (simp add: minus_mult_div_eq_mod)
  ultimately have "c_mod x 4 = - ((- x) mod 4)"
    by linarith
  have "0 \<le> (- x) mod 4 \<and> (- x) mod 4 < 4" by simp
  with \<open>c_mod x 4 = - ((- x) mod 4)\<close> show ?thesis by linarith
qed

subsection \<open>What a successful construction leaves\<close>

lemma init_built:
  assumes "MMG5_MultiMat_init alloc minfo = Return (1, minfo')" and "mat minfo \<noteq> []"
  shows "\<exists>pim0. fill_loop pim0 (mat minfo) = Some (invmat minfo') \<and>
           lookup pim0 = replicate (nat (size_im pim0)) 0 \<and>
           0 < size_im pim0 \<and> size_im pim0 \<le> INT_MAX \<and>
           mat minfo' = mat minfo \<and> nmati minfo' = nmati minfo"
  using assms
  by (auto simp: MMG5_MultiMat_init_def nmat_def chk_int_def Let_def
      split: prod.splits option.splits if_splits)

lemma init_table_ok:
  assumes "MMG5_MultiMat_init alloc minfo = Return (1, minfo')" and "mat minfo \<noteq> []"
  shows "table_ok (invmat minfo')"
proof -
  from init_built [OF assms] obtain pim0 where
    f: "fill_loop pim0 (mat minfo) = Some (invmat minfo')"
    and z: "lookup pim0 = replicate (nat (size_im pim0)) 0"
    and b: "0 < size_im pim0" "size_im pim0 \<le> INT_MAX"
    by blast
  from fill_shape [OF f] z b show ?thesis
    by (simp add: table_ok_def)
qed

lemma init_untouched:
  assumes "MMG5_MultiMat_init alloc minfo = Return (1, minfo')" and "mat minfo \<noteq> []"
    and "in_table (invmat minfo') r"
    and "\<forall>pm\<in>set (mat minfo). r \<notin> set (declared pm)"
  shows "slot (invmat minfo') r = Some 0"
proof -
  from init_built [OF assms(1,2)] obtain pim0 where
    f: "fill_loop pim0 (mat minfo) = Some (invmat minfo')"
    and z: "lookup pim0 = replicate (nat (size_im pim0)) 0"
    and b: "0 < size_im pim0" "size_im pim0 \<le> INT_MAX"
    by blast
  have ok: "table_ok pim0"
    using z b by (simp add: table_ok_def)
  have inr: "in_table pim0 r"
    using fill_shape [OF f] assms(3) by (simp add: in_table_def)
  have "slot (invmat minfo') r = slot pim0 r"
    using f assms(4) by (rule fill_frame)
  also have "\<dots> = Some 0"
    using slot_in_table [OF ok inr] z inr by (simp add: in_table_def)
  finally show ?thesis .
qed

subsection \<open>When the construction succeeds\<close>

lemma upd_max: "(if (a::int) > b then a else b) = max a b"
  by (simp add: max_def)

lemma upd_min: "(if (a::int) < b then a else b) = min a b"
  by (simp add: min_def)

lemma minmax_step:
  "minmax_loop (pm # pms) (mx, mn) =
     minmax_loop pms
       (if dospl pm
        then (max (rex pm) (max (rin pm) (max (ref pm) mx)),
              min (rex pm) (min (rin pm) (min (ref pm) mn)))
        else (max (ref pm) mx, min (ref pm) mn))"
  by (simp only: minmax_loop.simps Let_def upd_max upd_min) simp

lemma minmax_cover:
  assumes "minmax_loop pms (mx, mn) = (mx', mn')"
  shows "mx \<le> mx' \<and> mn' \<le> mn \<and> (\<forall>pm\<in>set pms. \<forall>r\<in>set (declared pm). mn' \<le> r \<and> r \<le> mx')"
  using assms
proof (induction pms arbitrary: mx mn)
  case Nil
  then show ?case by simp
next
  case (Cons pm pms)
  show ?case
  proof (cases "dospl pm")
    case False
    with Cons.prems have
      "minmax_loop pms (max (ref pm) mx, min (ref pm) mn) = (mx', mn')"
      by (simp only: minmax_step if_True if_False)
    from Cons.IH [OF this] False show ?thesis
      by (auto simp: declared_def children_def)
  next
    case True
    with Cons.prems have
      "minmax_loop pms (max (rex pm) (max (rin pm) (max (ref pm) mx)),
                        min (rex pm) (min (rin pm) (min (ref pm) mn))) = (mx', mn')"
      by (simp only: minmax_step if_True if_False)
    from Cons.IH [OF this] True show ?thesis
      by (auto simp: declared_def children_def)
  qed
qed

lemma minmax_within:
  assumes "minmax_loop pms (mx, mn) = (mx', mn')"
    and "\<forall>pm\<in>set pms. \<forall>r\<in>set (declared pm). lo \<le> r \<and> r \<le> hi"
    and "lo \<le> mn" and "mx \<le> hi"
  shows "lo \<le> mn' \<and> mx' \<le> hi"
  using assms
proof (induction pms arbitrary: mx mn)
  case Nil
  then show ?case by simp
next
  case (Cons pm pms)
  show ?case
  proof (cases "dospl pm")
    case False
    with Cons.prems(1) have
      "minmax_loop pms (max (ref pm) mx, min (ref pm) mn) = (mx', mn')"
      by (simp only: minmax_step if_True if_False)
    from Cons.IH [OF this] show ?thesis
      using Cons.prems(2-4) by (auto simp: declared_def)
  next
    case True
    with Cons.prems(1) have
      "minmax_loop pms (max (rex pm) (max (rin pm) (max (ref pm) mx)),
                        min (rex pm) (min (rin pm) (min (ref pm) mn))) = (mx', mn')"
      by (simp only: minmax_step if_True if_False)
    from Cons.IH [OF this] show ?thesis
      using Cons.prems(2-4) True by (auto simp: declared_def children_def)
  qed
qed

lemma packed_ok:
  assumes "packable r" and "tg = MG_MINUS \<or> tg = MG_PLUS"
  shows "packed r tg = Some (4 * (r + 1) + tg)"
  using assms
  by (auto simp: packable_def packed_def chk_int_def INT_MAX_def INT_MIN_def MG_MINUS_def MG_PLUS_def)

lemma store_at_ok:
  assumes "offset pim \<le> r" and "r < offset pim + int (length (lookup pim))"
    and "int (length (lookup pim)) \<le> INT_MAX"
  shows "\<exists>p. store_at pim r (Some y) = Some p"
  using assms
  by (auto simp: store_at_def MMG5_InvMat_key_def chk_int_def lookup_wr_def INT_MIN_def INT_MAX_def)

lemma set_ok:
  assumes "\<forall>r\<in>set (declared pm). offset pim \<le> r \<and> r < offset pim + int (length (lookup pim))"
    and "int (length (lookup pim)) \<le> INT_MAX"
    and "dospl pm \<longrightarrow> packable (ref pm)"
  shows "\<exists>p. MMG5_InvMat_set pim pm = Some p"
proof -
  obtain p1 where 1: "store_at pim (ref pm) (Some (if dospl pm then 1 else 0)) = Some p1"
    using store_at_ok [of pim "ref pm"] assms(1,2) by (auto simp: declared_def)
  show ?thesis
  proof (cases "dospl pm")
    case False
    with 1 show ?thesis by (simp add: MMG5_InvMat_set_def)
  next
    case True
    then have pk: "packed (ref pm) MG_MINUS = Some (4 * (ref pm + 1) + MG_MINUS)"
      "packed (ref pm) MG_PLUS = Some (4 * (ref pm + 1) + MG_PLUS)"
      using assms(3) by (simp_all add: packed_ok)
    note s1 = store_at_shape [OF 1]
    obtain p2 where 2: "store_at p1 (rin pm) (Some (4 * (ref pm + 1) + MG_MINUS)) = Some p2"
      using store_at_ok [of p1 "rin pm"] assms(1,2) s1 True
      by (auto simp: declared_def children_def)
    note s2 = store_at_shape [OF 2]
    obtain p3 where 3: "store_at p2 (rex pm) (Some (4 * (ref pm + 1) + MG_PLUS)) = Some p3"
      using store_at_ok [of p2 "rex pm"] assms(1,2) s1 s2 True
      by (auto simp: declared_def children_def)
    from 1 2 3 True pk show ?thesis
      by (simp add: MMG5_InvMat_set_def)
  qed
qed

lemma fill_ok:
  assumes "\<forall>pm\<in>set pms. \<forall>r\<in>set (declared pm).
             offset pim \<le> r \<and> r < offset pim + int (length (lookup pim))"
    and "int (length (lookup pim)) \<le> INT_MAX"
    and "\<forall>pm\<in>set pms. dospl pm \<longrightarrow> packable (ref pm)"
  shows "\<exists>p. fill_loop pim pms = Some p"
  using assms
proof (induction pms arbitrary: pim)
  case Nil
  then show ?case by simp
next
  case (Cons pm pms)
  obtain p1 where 1: "MMG5_InvMat_set pim pm = Some p1"
    using set_ok [of pm pim] Cons.prems by auto
  note sh = set_shape [OF 1]
  have "\<exists>p. fill_loop p1 pms = Some p"
    using Cons.prems sh by (intro Cons.IH) auto
  with 1 show ?case by simp
qed

lemma init_ok:
  assumes ne: "mat minfo \<noteq> []" and allset: "nmat minfo \<le> nmati minfo"
    and mem: "\<forall>n. alloc n"
    and small: "\<forall>pm\<in>set (mat minfo). \<forall>r\<in>set (declared pm). packable r"
  shows "\<exists>minfo'. MMG5_MultiMat_init alloc minfo = Return (1, minfo')"
proof -
  obtain refmax refmin where mm: "minmax_loop (mat minfo) (0, INT_MAX) = (refmax, refmin)"
    by (cases "minmax_loop (mat minfo) (0, INT_MAX)") auto
  note cov = minmax_cover [OF mm]
  have "\<forall>pm\<in>set (mat minfo). \<forall>r\<in>set (declared pm). 0 \<le> r \<and> r \<le> 536870910"
    using small by (auto simp: packable_def INT_MAX_def MG_MINUS_def)
  from minmax_within [OF mm this] have rng: "0 \<le> refmin" "refmax \<le> 536870910"
    by (simp_all add: INT_MAX_def)
  from ne obtain pm where pm: "pm \<in> set (mat minfo)"
    by (cases "mat minfo") auto
  with cov have "refmin \<le> ref pm" "ref pm \<le> refmax"
    by (auto simp: declared_def)
  then have le: "refmin \<le> refmax" by simp
  define sz where "sz = refmax - refmin + 1"
  have szb: "0 < sz" "sz \<le> INT_MAX"
    using le rng by (simp_all add: sz_def INT_MAX_def)
  define pim0 where
    "pim0 = (invmat minfo)\<lparr>offset := refmin, size_im := sz, lookup := replicate (nat sz) 0\<rparr>"
  have "\<exists>p. fill_loop pim0 (mat minfo) = Some p"
  proof (rule fill_ok)
    show "\<forall>pm\<in>set (mat minfo). \<forall>r\<in>set (declared pm).
            offset pim0 \<le> r \<and> r < offset pim0 + int (length (lookup pim0))"
      using cov szb by (auto simp: pim0_def sz_def)
    show "int (length (lookup pim0)) \<le> INT_MAX"
      using szb by (simp add: pim0_def)
    show "\<forall>pm\<in>set (mat minfo). dospl pm \<longrightarrow> packable (ref pm)"
      using small by (auto simp: declared_def)
  qed
  then obtain p where "fill_loop pim0 (mat minfo) = Some p" by blast
  then show ?thesis
    using ne allset mem mm szb le rng
    by (simp add: MMG5_MultiMat_init_def nmat_def chk_int_def pim0_def sz_def
        INT_MIN_def INT_MAX_def)
qed

subsection \<open>The loop of the split policy\<close>

lemma isSplit_loop_found:
  assumes "distinct (map ref pms)" and "pm \<in> set pms"
  shows "isSplit_loop pms (ref pm) ri re =
           (if dospl pm then (1, rin pm, rex pm) else (0, ri, re))"
  using assms by (induction pms) (auto simp: rev_image_eqI)

lemma isSplit_loop_default:
  assumes "\<forall>pm\<in>set pms. ref pm \<noteq> r"
  shows "isSplit_loop pms r ri re = (1, MG_MINUS, MG_PLUS)"
  using assms by (induction pms) auto

subsection \<open>The examples, evaluated\<close>

lemmas table_defs =
  MMG5_MultiMat_init_def nmat_def chk_int_def INT_MAX_def INT_MIN_def MMG5_InvMat_set_def
  store_at_def MMG5_InvMat_key_def lookup_wr_def packed_def MG_MINUS_def MG_PLUS_def
  alloc_always_def no_table_def

lemmas query_defs =
  MMG5_InvMat_getTag_def MMG5_InvMat_getParent_def MMG5_InvMat_key_def lookup_rd_def
  chk_int_def INT_MAX_def INT_MIN_def c_mod_def c_div_def MG_MINUS_def MG_PLUS_def

lemma init_ex: "MMG5_MultiMat_init alloc_always info_ex = Return (1, built_ex)"
  by (simp add: table_defs info_ex_def built_ex_def mats_ex_def eval_nat_numeral)

lemma free_ex: "collision_free mats_ex"
  by (simp add: collision_free_def clash_def mats_ex_def declared_def children_def)

lemma mat_info_ex: "mat info_ex = mats_ex"
  by (simp add: info_ex_def)

lemma built_ex_ok: "table_ok (invmat built_ex)"
  by (simp add: table_ok_def built_ex_def INT_MAX_def)

lemma init_dup: "MMG5_MultiMat_init alloc_always info_dup = Return (1, built_dup)"
  by (simp add: table_defs info_dup_def built_dup_def mats_dup_def eval_nat_numeral)

section \<open>Properties of the interpolation\<close>

lemma upt_6: "[0..<6] = [0, 1, 2, 3, 4, 5]"
  by (simp add: upt_rec)

lemma copy6: "length xs = 6 \<Longrightarrow> map (\<lambda>i. xs ! i) [0..<6] = xs"
  by (metis map_nth)

lemma put6_apply:
  "m_sol (put6 met a xs) j = (if a \<le> j \<and> j < a + 6 then xs ! (j - a) else m_sol met j)"
  by (auto simp: put6_def upt_6)

lemma slot6_put6: "length xs = 6 \<Longrightarrow> slot6 (put6 met a xs) a = xs"
  by (auto simp: slot6_def put6_apply list_eq_iff_nth_eq)

lemma blend_loop:
  assumes "length a = 6" and "length b = 6"
  shows "map (\<lambda>i. (1 - t) * a ! i + t * b ! i) [0..<6] = blend a b t"
  using assms by (auto simp: blend_def list_eq_iff_nth_eq)

lemma weighted4_loop:
  assumes "length a = 6" and "length b = 6" and "length c = 6" and "length d = 6"
  shows "map (\<lambda>i. cb ! 0 * a ! i + cb ! 1 * b ! i + cb ! 2 * c ! i + cb ! 3 * d ! i) [0..<6] =
         weighted4 cb a b c d"
  using assms by (auto simp: weighted4_def list_eq_iff_nth_eq)

lemma inv_diag_zero: "inv_diag [0, 0, 0, 0, 0, 0] = None"
  by (simp add: inv_diag_def)

lemma slot_ex_1: "slot6 (met_ex old) 6 = [0, 0, 0, 0, 0, 0]"
  by (simp add: slot6_def met_ex_def upt_6)

lemma slot_ex_2: "slot6 (met_ex old) 12 = [1, 0, 0, 1, 0, 1]"
  by (simp add: slot6_def met_ex_def upt_6)

lemma inv_diag_shape: "inv_diag x = Some y \<Longrightarrow> length y = 6"
  by (auto simp: inv_diag_def split: if_splits)

text \<open>
  Once both end points have their tensor, \<open>_MMG5_intvolmet\<close> returns 1 or stops the
  process, whatever \<open>_MMG5_intregvolmet\<close> returned.
\<close>

lemma intvolmet_never_fails:
  assumes "resolve_end env mesh met (tetra mesh k) (v_tet (tetra mesh k) ! iare env i 0) = Some m1"
    and "resolve_end env mesh met (tetra mesh k) (v_tet (tetra mesh k) ! iare env i 1) = Some m2"
  shows "MMG5_intvolmet env mesh met k i s mr = Halt \<or>
         MMG5_intvolmet env mesh met k i s mr =
           Return (1, snd (MMG5_intregvolmet (MMG5_invmat env) m1 m2 met mr s))"
  using assms by (simp add: MMG5_intvolmet_def Let_def split: prod.splits)

text \<open>
  In multi-material mode and inside the table, \<open>MMG5_isNotSplit\<close> returns 0 exactly
  for the tag 0.
\<close>

lemma isNotSplit_tag:
  assumes "nmat minfo \<noteq> 0" and "table_ok (invmat minfo)" and "in_table (invmat minfo) r"
  shows "\<exists>t. MMG5_InvMat_getTag (invmat minfo) r = Some t \<and>
             MMG5_isNotSplit minfo r = Some (if t = 0 then 0 else 1)"
  using assms slot_in_table [of "invmat minfo" r]
  by (auto simp: MMG5_isNotSplit_def getTag_slot)

section \<open>The claims\<close>

text \<open>
  Claim C1: for every interpolation on an internal edge in the compressed anisotropic
  mode, if the inversion of a tensor of an end point or of the blended tensor fails,
  the call returns FAIL (0) and the six entries of the new point are left as they were.

  The source does not do the first half. \<open>_MMG5_intvolmet\<close> calls
  \<open>_MMG5_intregvolmet\<close> and drops the integer it returns, while its own header says
  "0 if fail, 1 otherwise" and \<open>_MMG5_interp4bar_ani\<close> hands the integer of
  \<open>_MMG5_interp4barintern\<close> on. Evaluated on an edge from point 1, whose tensor is
  null and has no inverse, to point 2: the blending routine returns 0 and writes
  nothing, and the call returns 1 when the sixth entry of the new point is 7, with or
  without boundary data on the tetrahedron, and stops the process when it is 0. The
  metric is unchanged in each case.
\<close>

theorem intvolmet_ignores_failure:
  "MMG5_invmat env_ex (slot6 (met_ex 7) (6 * 1)) = None \<and>
   MMG5_intregvolmet (MMG5_invmat env_ex) (slot6 (met_ex 7) (6 * 1)) (slot6 (met_ex 7) (6 * 2))
      (met_ex 7) (6 * 5) (1 / 2) = (0, met_ex 7) \<and>
   MMG5_intmet_ani env_ex (mesh_ex 0 0) (met_ex 7) 0 0 5 (1 / 2) = Return (1, met_ex 7) \<and>
   MMG5_intmet_ani env_ex (mesh_ex 1 0) (met_ex 7) 0 0 5 (1 / 2) = Return (1, met_ex 7) \<and>
   MMG5_intmet_ani env_ex (mesh_ex 0 0) (met_ex 0) 0 0 5 (1 / 2) = Halt"
  by (simp add: MMG5_intmet_ani_def MMG5_intvolmet_def resolve_end_def MMG5_intregvolmet_def
      env_ex_def mesh_ex_def slot_ex_1 slot_ex_2 inv_diag_zero upt_6)
     (simp add: met_ex_def)

text \<open>
  Claim C2: when every inversion succeeds, the computed metric is the inverse of the
  convex combination of the inverses of the input tensors: along an internal edge
  \<open>invert((1-s)*invert(A) + s*invert(B))\<close>, in a tetrahedron
  \<open>invert(cb[0]*invert(M0) + cb[1]*invert(M1) + cb[2]*invert(M2) + cb[3]*invert(M3))\<close>,
  entry by entry on the six entries. The inversion is any routine that returns six
  entries; the two input tensors of the edge have six entries.
\<close>

theorem inverse_space_blend:
  assumes shape: "\<forall>x y. invm x = Some y \<longrightarrow> length y = 6"
    and la: "length ma = 6" and lb: "length mb = 6"
  shows "(\<forall>r. edge_blend_spec invm ma mb t = Some r \<longrightarrow>
            fst (MMG5_intregvolmet invm ma mb met mp t) = 1 \<and>
            slot6 (snd (MMG5_intregvolmet invm ma mb met mp t)) mp = r) \<and>
         (\<forall>q. bary_blend_spec invm cb dm0 dm1 dm2 dm3 = Some q \<longrightarrow>
            fst (MMG5_interp4barintern invm met ip cb dm0 dm1 dm2 dm3) = 1 \<and>
            slot6 (snd (MMG5_interp4barintern invm met ip cb dm0 dm1 dm2 dm3)) (size_sol met * ip) = q)"
proof (intro conjI allI impI)
  fix r
  assume e: "edge_blend_spec invm ma mb t = Some r"
  then obtain ai bi where i: "invm ma = Some ai" "invm mb = Some bi"
    and b: "invm (blend ai bi t) = Some r"
    by (auto simp: edge_blend_spec_def split: option.splits)
  from shape i b have len: "length ai = 6" "length bi = 6" "length r = 6"
    by blast+
  have res: "MMG5_intregvolmet invm ma mb met mp t = (1, put6 met mp r)"
    using i b by (simp add: MMG5_intregvolmet_def copy6 la lb blend_loop len)
  show "fst (MMG5_intregvolmet invm ma mb met mp t) = 1"
    by (simp add: res)
  show "slot6 (snd (MMG5_intregvolmet invm ma mb met mp t)) mp = r"
    by (simp add: res slot6_put6 len)
next
  fix q
  assume e: "bary_blend_spec invm cb dm0 dm1 dm2 dm3 = Some q"
  then obtain i0 i1 i2 i3 where i: "invm dm0 = Some i0" "invm dm1 = Some i1"
    "invm dm2 = Some i2" "invm dm3 = Some i3"
    and b: "invm (weighted4 cb i0 i1 i2 i3) = Some q"
    by (auto simp: bary_blend_spec_def split: option.splits)
  from shape i b have len: "length i0 = 6" "length i1 = 6" "length i2 = 6" "length i3 = 6"
    "length q = 6"
    by blast+
  have res: "MMG5_interp4barintern invm met ip cb dm0 dm1 dm2 dm3 = (1, put6 met (size_sol met * ip) q)"
    using i b weighted4_loop [OF len(1-4), of cb] by (simp add: MMG5_interp4barintern_def)
  show "fst (MMG5_interp4barintern invm met ip cb dm0 dm1 dm2 dm3) = 1"
    by (simp add: res)
  show "slot6 (snd (MMG5_interp4barintern invm met ip cb dm0 dm1 dm2 dm3)) (size_sol met * ip) = q"
    by (simp add: res slot6_put6 len)
qed

theorem inverse_space_blend_witness:
  "edge_blend_spec inv_diag [1, 0, 0, 1, 0, 1] [2, 0, 0, 2, 0, 2] (1 / 2) =
     Some [4 / 3, 0, 0, 4 / 3, 0, 4 / 3] \<and>
   fst (MMG5_intregvolmet inv_diag [1, 0, 0, 1, 0, 1] [2, 0, 0, 2, 0, 2] (met_ex 0) 30 (1 / 2)) = 1 \<and>
   slot6 (snd (MMG5_intregvolmet inv_diag [1, 0, 0, 1, 0, 1] [2, 0, 0, 2, 0, 2] (met_ex 0) 30 (1 / 2))) 30 =
     [4 / 3, 0, 0, 4 / 3, 0, 4 / 3] \<and>
   bary_blend_spec inv_diag [1 / 4, 1 / 4, 1 / 4, 1 / 4] [1, 0, 0, 1, 0, 1] [2, 0, 0, 2, 0, 2]
     [2, 0, 0, 2, 0, 2] [2, 0, 0, 2, 0, 2] = Some [8 / 5, 0, 0, 8 / 5, 0, 8 / 5] \<and>
   fst (MMG5_interp4barintern inv_diag (met_ex 0) 5 [1 / 4, 1 / 4, 1 / 4, 1 / 4] [1, 0, 0, 1, 0, 1]
     [2, 0, 0, 2, 0, 2] [2, 0, 0, 2, 0, 2] [2, 0, 0, 2, 0, 2]) = 1 \<and>
   slot6 (snd (MMG5_interp4barintern inv_diag (met_ex 0) 5 [1 / 4, 1 / 4, 1 / 4, 1 / 4]
     [1, 0, 0, 1, 0, 1] [2, 0, 0, 2, 0, 2] [2, 0, 0, 2, 0, 2] [2, 0, 0, 2, 0, 2])) 30 =
     [8 / 5, 0, 0, 8 / 5, 0, 8 / 5]"
proof -
  have shape: "\<forall>x y. inv_diag x = Some y \<longrightarrow> length y = 6"
    using inv_diag_shape by blast
  have la: "length [1, 0, 0, 1, 0, 1 :: real] = 6" and lb: "length [2, 0, 0, 2, 0, 2 :: real] = 6"
    by simp_all
  have e: "edge_blend_spec inv_diag [1, 0, 0, 1, 0, 1] [2, 0, 0, 2, 0, 2] (1 / 2) =
      Some [4 / 3, 0, 0, 4 / 3, 0, 4 / 3]"
    by (simp add: edge_blend_spec_def inv_diag_def blend_def)
  have q: "bary_blend_spec inv_diag [1 / 4, 1 / 4, 1 / 4, 1 / 4] [1, 0, 0, 1, 0, 1]
      [2, 0, 0, 2, 0, 2] [2, 0, 0, 2, 0, 2] [2, 0, 0, 2, 0, 2] = Some [8 / 5, 0, 0, 8 / 5, 0, 8 / 5]"
    by (simp add: bary_blend_spec_def inv_diag_def weighted4_def)
  have sz: "size_sol (met_ex 0) * 5 = 30"
    by (simp add: met_ex_def)
  from inverse_space_blend [OF shape la lb, of "1 / 2" "met_ex 0" 30
      "[1 / 4, 1 / 4, 1 / 4, 1 / 4]" "[1, 0, 0, 1, 0, 1]" "[2, 0, 0, 2, 0, 2]"
      "[2, 0, 0, 2, 0, 2]" "[2, 0, 0, 2, 0, 2]" 5] e q sz
  show ?thesis
    by simp
qed

text \<open>
  Claim C3 as it is written: for every material list with pairwise distinct original
  references and no child reference claimed by two distinct materials (the only
  tolerated collision being a child equal to the reference of its own parent), after
  the table is built a splitting material has the role MINUS at its interior
  reference, PLUS at its exterior reference and itself as the parent of both, and a
  material that does not split has the role NONE at its own reference.

  It fails for a parent whose reference is below \<open>- 1\<close>: the entry \<open>4*(ref+1)+tag\<close>
  is negative then, and the division and the remainder of C, which truncate towards
  zero, give back neither the parent nor the tag. The source packs references from 0
  on ("0 is a legit material reference, so store the parent as 4*(ref+1)"). For the
  one material with reference \<open>- 2\<close> and children \<open>- 3\<close> and \<open>- 4\<close> the table is built
  and holds the role \<open>- 1\<close> and the parent \<open>- 1\<close> for the interior child.
\<close>

theorem table_round_trip_counterexample:
  "collision_free (mat info_neg) \<and>
   MMG5_MultiMat_init alloc_always info_neg = Return (1, built_neg) \<and>
   dospl (mat info_neg ! 0) \<and> rin (mat info_neg ! 0) = - 3 \<and> ref (mat info_neg ! 0) = - 2 \<and>
   MMG5_InvMat_getTag (invmat built_neg) (- 3) = Some (- 1) \<and>
   MMG5_InvMat_getTag (invmat built_neg) (- 3) \<noteq> Some MG_MINUS \<and>
   MMG5_InvMat_getParent (invmat built_neg) (- 3) = Some (- 1) \<and>
   MMG5_InvMat_getParent (invmat built_neg) (- 3) \<noteq> Some (- 2)"
  by (simp add: collision_free_def table_defs info_neg_def built_neg_def mats_neg_def
      eval_nat_numeral)
     (simp add: query_defs)

text \<open>
  Claim C3, amended: for every collision-free material list whose splitting materials
  have a reference that is not negative, after the table is built a splitting
  material has the role MINUS at its interior reference, PLUS at its exterior
  reference and itself as the parent of both, and a material that does not split has
  the role NONE (0) at its own reference. That the table is built says that no
  entry left the range of \<open>int\<close>.
\<close>

theorem table_round_trip:
  assumes built: "MMG5_MultiMat_init alloc minfo = Return (1, minfo')"
    and free: "collision_free (mat minfo)"
    and nonneg: "\<forall>pm\<in>set (mat minfo). dospl pm \<longrightarrow> 0 \<le> ref pm"
  shows "\<forall>pm\<in>set (mat minfo).
     (dospl pm \<longrightarrow>
        MMG5_InvMat_getTag (invmat minfo') (rin pm) = Some MG_MINUS \<and>
        MMG5_InvMat_getTag (invmat minfo') (rex pm) = Some MG_PLUS \<and>
        MMG5_InvMat_getParent (invmat minfo') (rin pm) = Some (ref pm) \<and>
        MMG5_InvMat_getParent (invmat minfo') (rex pm) = Some (ref pm)) \<and>
     (\<not> dospl pm \<longrightarrow> MMG5_InvMat_getTag (invmat minfo') (ref pm) = Some 0)"
proof
  fix pm
  assume mem: "pm \<in> set (mat minfo)"
  then have ne: "mat minfo \<noteq> []" by auto
  from init_built [OF built ne] obtain pim0 where
    f: "fill_loop pim0 (mat minfo) = Some (invmat minfo')" by blast
  from mem obtain pre post where sp: "mat minfo = pre @ pm # post"
    by (auto simp: in_set_conv_decomp)
  from free have later: "\<forall>b\<in>set post. \<not> clash pm b"
    and own: "dospl pm \<longrightarrow> rin pm \<noteq> rex pm"
    by (auto simp: collision_free_def sp sorted_wrt_append)
  from f have f': "fill_loop pim0 (pre @ pm # post) = Some (invmat minfo')"
    by (simp add: sp)
  show "(dospl pm \<longrightarrow>
        MMG5_InvMat_getTag (invmat minfo') (rin pm) = Some MG_MINUS \<and>
        MMG5_InvMat_getTag (invmat minfo') (rex pm) = Some MG_PLUS \<and>
        MMG5_InvMat_getParent (invmat minfo') (rin pm) = Some (ref pm) \<and>
        MMG5_InvMat_getParent (invmat minfo') (rex pm) = Some (ref pm)) \<and>
     (\<not> dospl pm \<longrightarrow> MMG5_InvMat_getTag (invmat minfo') (ref pm) = Some 0)"
  proof (cases "dospl pm")
    case True
    with nonneg mem have r0: "0 \<le> ref pm" by blast
    from True later have a: "\<forall>b\<in>set post. rin pm \<notin> set (declared b)"
      and b: "\<forall>b\<in>set post. rex pm \<notin> set (declared b)"
      by (auto simp: clash_def children_def)
    from True own have d: "rin pm \<noteq> rex pm" by simp
    have "slot (invmat minfo') (rin pm) = Some (4 * (ref pm + 1) + MG_MINUS)"
      using f' True d a by (rule later_wins_rin)
    moreover have "slot (invmat minfo') (rex pm) = Some (4 * (ref pm + 1) + MG_PLUS)"
      using f' True b by (rule later_wins_rex)
    ultimately show ?thesis
      using True unpack_tag [OF r0, of MG_MINUS] unpack_tag [OF r0, of MG_PLUS]
        unpack_parent [OF r0, of MG_MINUS] unpack_parent [OF r0, of MG_PLUS]
      by (simp add: getTag_slot getParent_slot)
  next
    case False
    from later have "\<forall>b\<in>set post. ref pm \<notin> set (declared b)"
      by (auto simp: clash_def declared_def)
    with f' False have "slot (invmat minfo') (ref pm) = Some 0"
      by (rule later_wins_nosplit)
    with False show ?thesis
      by (simp add: getTag_slot c_mod_def c_div_def)
  qed
qed

theorem table_round_trip_witness:
  "MMG5_MultiMat_init alloc_always info_ex = Return (1, built_ex) \<and>
   collision_free (mat info_ex) \<and>
   MMG5_InvMat_getTag (invmat built_ex) 10 = Some MG_MINUS \<and>
   MMG5_InvMat_getTag (invmat built_ex) 11 = Some MG_PLUS \<and>
   MMG5_InvMat_getParent (invmat built_ex) 10 = Some 1 \<and>
   MMG5_InvMat_getParent (invmat built_ex) 11 = Some 1 \<and>
   MMG5_InvMat_getTag (invmat built_ex) 2 = Some 0"
proof -
  have h1: "MMG5_MultiMat_init alloc_always info_ex = Return (1, built_ex)"
    by (rule init_ex)
  have h2: "collision_free (mat info_ex)"
    by (simp add: mat_info_ex free_ex)
  have h3: "\<forall>pm\<in>set (mat info_ex). dospl pm \<longrightarrow> 0 \<le> ref pm"
    by (simp add: mat_info_ex mats_ex_def)
  from table_round_trip [OF h1 h2 h3] have
    "MMG5_InvMat_getTag (invmat built_ex) 10 = Some MG_MINUS \<and>
     MMG5_InvMat_getTag (invmat built_ex) 11 = Some MG_PLUS \<and>
     MMG5_InvMat_getParent (invmat built_ex) 10 = Some 1 \<and>
     MMG5_InvMat_getParent (invmat built_ex) 11 = Some 1 \<and>
     MMG5_InvMat_getTag (invmat built_ex) 2 = Some 0"
    by (simp add: mat_info_ex mats_ex_def)
  with h1 h2 show ?thesis by blast
qed

text \<open>
  Claim C4 as it is written: for every reference and every material list, if some
  material declares the reference and does not split, \<open>MMG5_isSplit\<close> returns 0; if
  some material declares it and splits, it returns 1 with the interior and exterior
  references of that material; if no material declares it, it returns 1 with MINUS
  and PLUS.

  The loop of the source returns at the first material that declares the reference.
  When two materials declare the reference 1, the first without splitting and the
  second splitting into 10 and 11, it returns 0 and leaves the two output references
  as they were, although a material declares 1 and splits; with the two materials in
  the other order it returns 1 with 10 and 11, although a material declares 1 and
  does not split.
\<close>

theorem isSplit_cases_counterexample:
  "ref (mat info_rep ! 1) = 1 \<and> dospl (mat info_rep ! 1) \<and>
   rin (mat info_rep ! 1) = 10 \<and> rex (mat info_rep ! 1) = 11 \<and>
   MMG5_isSplit info_rep 1 7 8 = (0, 7, 8) \<and>
   MMG5_isSplit info_rep 1 7 8 \<noteq> (1, 10, 11) \<and>
   ref (mat info_per ! 1) = 1 \<and> \<not> dospl (mat info_per ! 1) \<and>
   MMG5_isSplit info_per 1 7 8 = (1, 10, 11) \<and>
   fst (MMG5_isSplit info_per 1 7 8) \<noteq> 0"
  by (simp add: MMG5_isSplit_def info_rep_def info_per_def mats_rep_def)

text \<open>
  Claim C4, amended: for every reference and every material list with pairwise
  distinct original references, if a material declares the reference and does not
  split, \<open>MMG5_isSplit\<close> returns 0 (and leaves the two output references as they
  were); if a material declares it and splits, it returns 1 with the interior and
  exterior references of that material; if no material declares it, it returns 1
  with MINUS and PLUS.
\<close>

theorem isSplit_cases:
  assumes "distinct (map ref (mat minfo))"
  shows "(\<forall>pm\<in>set (mat minfo). ref pm = r \<longrightarrow>
            MMG5_isSplit minfo r ri re =
              (if dospl pm then (1, rin pm, rex pm) else (0, ri, re))) \<and>
         ((\<forall>pm\<in>set (mat minfo). ref pm \<noteq> r) \<longrightarrow>
            MMG5_isSplit minfo r ri re = (1, MG_MINUS, MG_PLUS))"
  using assms
  by (auto simp: MMG5_isSplit_def isSplit_loop_found isSplit_loop_default simp del: isSplit_loop.simps)

theorem isSplit_cases_witness:
  "distinct (map ref (mat info_ex)) \<and>
   MMG5_isSplit info_ex 1 0 0 = (1, 10, 11) \<and>
   MMG5_isSplit info_ex 2 7 8 = (0, 7, 8) \<and>
   MMG5_isSplit info_ex 99 0 0 = (1, MG_MINUS, MG_PLUS)"
proof -
  have h: "distinct (map ref (mat info_ex))"
    by (simp add: mat_info_ex mats_ex_def)
  have "MMG5_isSplit info_ex 1 0 0 = (1, 10, 11)"
    using isSplit_cases [OF h, of 1 0 0] by (simp add: mat_info_ex mats_ex_def)
  moreover have "MMG5_isSplit info_ex 2 7 8 = (0, 7, 8)"
    using isSplit_cases [OF h, of 2 7 8] by (simp add: mat_info_ex mats_ex_def)
  moreover have "MMG5_isSplit info_ex 99 0 0 = (1, MG_MINUS, MG_PLUS)"
    using isSplit_cases [OF h, of 99 0 0] by (simp add: mat_info_ex mats_ex_def)
  ultimately show ?thesis using h by blast
qed

text \<open>
  Claim C5: for every two references inside the range of the table,
  \<open>MMG5_isLevelSet\<close> returns 1 if and only if the two roles are MINUS and PLUS, one
  each; every other pair of roles gives 0.
\<close>

theorem isLevelSet_iff:
  assumes ok: "table_ok (invmat minfo)"
    and r0: "in_table (invmat minfo) ref0" and r1: "in_table (invmat minfo) ref1"
  shows "\<exists>t0 t1. MMG5_InvMat_getTag (invmat minfo) ref0 = Some t0 \<and>
                 MMG5_InvMat_getTag (invmat minfo) ref1 = Some t1 \<and>
                 MMG5_isLevelSet minfo ref0 ref1 =
                   Some (if {t0, t1} = {MG_MINUS, MG_PLUS} then 1 else 0)"
proof -
  obtain x0 x1 where s: "slot (invmat minfo) ref0 = Some x0" "slot (invmat minfo) ref1 = Some x1"
    using slot_in_table [OF ok r0] slot_in_table [OF ok r1] by blast
  have b0: "- 3 \<le> c_mod x0 4 \<and> c_mod x0 4 \<le> 3" by (rule c_mod_4_bounds)
  have b1: "- 3 \<le> c_mod x1 4 \<and> c_mod x1 4 \<le> 3" by (rule c_mod_4_bounds)
  have "(c_mod x0 4 + c_mod x1 4 = MG_MINUS + MG_PLUS) \<longleftrightarrow>
        {c_mod x0 4, c_mod x1 4} = {MG_MINUS, MG_PLUS}"
    using b0 b1 by (auto simp: MG_MINUS_def MG_PLUS_def doubleton_eq_iff)
  then show ?thesis
    using s by (simp add: MMG5_isLevelSet_def getTag_slot)
qed

theorem isLevelSet_iff_witness:
  "table_ok (invmat built_ex) \<and> in_table (invmat built_ex) 10 \<and>
   in_table (invmat built_ex) 11 \<and> in_table (invmat built_ex) 2 \<and>
   MMG5_isLevelSet built_ex 10 11 = Some 1 \<and> MMG5_isLevelSet built_ex 10 2 = Some 0"
proof -
  have h1: "in_table (invmat built_ex) 10" and h2: "in_table (invmat built_ex) 11"
    and h3: "in_table (invmat built_ex) 2"
    by (simp_all add: in_table_def built_ex_def)
  have t: "MMG5_InvMat_getTag (invmat built_ex) 10 = Some 3"
    "MMG5_InvMat_getTag (invmat built_ex) 11 = Some 2"
    "MMG5_InvMat_getTag (invmat built_ex) 2 = Some 0"
    by (simp_all add: query_defs built_ex_def)
  have "MMG5_isLevelSet built_ex 10 11 = Some 1"
    using isLevelSet_iff [OF built_ex_ok h1 h2] t by (auto simp: MG_MINUS_def MG_PLUS_def)
  moreover have "MMG5_isLevelSet built_ex 10 2 = Some 0"
    using isLevelSet_iff [OF built_ex_ok h1 h3] t
    by (auto simp: MG_MINUS_def MG_PLUS_def doubleton_eq_iff)
  ultimately show ?thesis using built_ex_ok h1 h2 h3 by blast
qed

text \<open>
  Claim C6: with no material, \<open>MMG5_isNotSplit\<close> returns 0; with a table and a
  reference inside its range, it returns 1 if and only if the role of the reference
  is NONE.

  The source has the second half the other way round: it returns 0 for the tag 0 and
  1 for every other tag, while its header says "1 if entity cannot be split, 0 if can
  be split". On the table of the two materials (1 splits into 10 and 11, 2 does not
  split) it answers 0 for the material 2, which \<open>MMG5_isSplit\<close> does not split, and
  1 for the material 1, which \<open>MMG5_isSplit\<close> splits.
\<close>

theorem isNotSplit_inverted:
  "MMG5_MultiMat_init alloc_always info_ex = Return (1, built_ex) \<and>
   MMG5_InvMat_getTag (invmat built_ex) 2 = Some 0 \<and> MMG5_isNotSplit built_ex 2 = Some 0 \<and>
   MMG5_InvMat_getTag (invmat built_ex) 1 = Some 1 \<and> MMG5_isNotSplit built_ex 1 = Some 1 \<and>
   MMG5_isSplit built_ex 2 0 0 = (0, 0, 0) \<and> MMG5_isSplit built_ex 1 0 0 = (1, 10, 11)"
  by (simp add: init_ex)
     (simp add: MMG5_isNotSplit_def MMG5_isSplit_def nmat_def query_defs built_ex_def mats_ex_def)

text \<open>
  Claim C7 as it is written: with no material \<open>MMG5_getIniRef\<close> returns the
  reference it is given. The source returns 0 there, by a test of its own
  ("No materials").
\<close>

theorem getIniRef_identity_counterexample:
  "nmat info_none = 0 \<and> MMG5_getIniRef info_none 5 = Some 0 \<and>
   MMG5_getIniRef info_none 5 \<noteq> Some 5"
  by (simp add: MMG5_getIniRef_def nmat_def info_none_def)

text \<open>
  Claim C7, amended: with no material \<open>MMG5_getIniRef\<close> returns 0; with materials
  and a reference inside the range of the table, it returns the reference unchanged
  if the table records no parent for it (\<open>- 1\<close>), and the recorded parent otherwise.
\<close>

theorem getIniRef_cases:
  "(nmat minfo = 0 \<longrightarrow> MMG5_getIniRef minfo r = Some 0) \<and>
   (nmat minfo \<noteq> 0 \<and> table_ok (invmat minfo) \<and> in_table (invmat minfo) r \<longrightarrow>
      (\<exists>k. MMG5_InvMat_getParent (invmat minfo) r = Some k \<and>
           MMG5_getIniRef minfo r = Some (if k = - 1 then r else k)))"
  using slot_in_table [of "invmat minfo" r]
  by (auto simp: MMG5_getIniRef_def getParent_slot)

theorem getIniRef_cases_witness:
  "nmat info_none = 0 \<and> MMG5_getIniRef info_none 5 = Some 0 \<and>
   nmat built_ex \<noteq> 0 \<and> table_ok (invmat built_ex) \<and> in_table (invmat built_ex) 10 \<and>
   MMG5_InvMat_getParent (invmat built_ex) 10 = Some 1 \<and>
   MMG5_getIniRef built_ex 10 = Some 1"
proof -
  have a: "nmat info_none = 0"
    by (simp add: nmat_def info_none_def)
  have b: "nmat built_ex \<noteq> 0"
    by (simp add: nmat_def built_ex_def mats_ex_def)
  have c: "in_table (invmat built_ex) 10"
    by (simp add: in_table_def built_ex_def)
  have p: "MMG5_InvMat_getParent (invmat built_ex) 10 = Some 1"
    by (simp add: query_defs built_ex_def)
  from getIniRef_cases [of info_none 5] a have "MMG5_getIniRef info_none 5 = Some 0"
    by blast
  moreover from getIniRef_cases [of built_ex 10] b built_ex_ok c p
  have "MMG5_getIniRef built_ex 10 = Some 1"
    by auto
  ultimately show ?thesis using a b built_ex_ok c p by blast
qed

text \<open>
  Claim C8 as it is written: a material list in which two distinct materials claim
  the same child reference is rejected by the construction of the table, so that no
  lookup succeeds; an entry is overwritten only for a child equal to the reference of
  its own parent. \<open>MMG5_MultiMat_init\<close> has no such test: the source leaves it to
  what runs before ("this must have already been checked"). For the materials 1 and
  2 that both declare the interior child 10 the table is built, and the lookup of 10
  succeeds and gives the material 2, declared last.
\<close>

theorem duplicate_child_counterexample:
  "ref (mat info_dup ! 0) \<noteq> ref (mat info_dup ! 1) \<and>
   dospl (mat info_dup ! 0) \<and> dospl (mat info_dup ! 1) \<and>
   rin (mat info_dup ! 0) = rin (mat info_dup ! 1) \<and>
   MMG5_MultiMat_init alloc_always info_dup = Return (1, built_dup) \<and>
   MMG5_InvMat_getParent (invmat built_dup) 10 = Some 2 \<and>
   MMG5_InvMat_getTag (invmat built_dup) 10 = Some MG_MINUS"
  by (simp add: init_dup)
     (simp add: info_dup_def mats_dup_def built_dup_def query_defs)

text \<open>
  Claim C8, amended: the construction of the table does not look for a child
  reference claimed twice. For every material list that is not empty, has all its
  materials set and only references that can be packed, and with the memory granted,
  it succeeds; and the entry of the interior child of a splitting material, with two
  different children, after which no material declares that reference is the one this
  material wrote: of two materials that claim a child, the one declared last has it.
\<close>

theorem init_without_validation:
  assumes ne: "mat minfo \<noteq> []" and allset: "nmat minfo \<le> nmati minfo"
    and mem: "\<forall>n. alloc n"
    and small: "\<forall>pm\<in>set (mat minfo). \<forall>r\<in>set (declared pm). packable r"
  shows "\<exists>minfo'. MMG5_MultiMat_init alloc minfo = Return (1, minfo') \<and>
     (\<forall>pre pm post.
        mat minfo = pre @ pm # post \<and> dospl pm \<and> rin pm \<noteq> rex pm \<and>
        (\<forall>b\<in>set post. rin pm \<notin> set (declared b)) \<longrightarrow>
        MMG5_InvMat_getTag (invmat minfo') (rin pm) = Some MG_MINUS \<and>
        MMG5_InvMat_getParent (invmat minfo') (rin pm) = Some (ref pm))"
proof -
  from init_ok [OF ne allset mem small] obtain minfo' where
    built: "MMG5_MultiMat_init alloc minfo = Return (1, minfo')" by blast
  from init_built [OF built ne] obtain pim0 where
    f: "fill_loop pim0 (mat minfo) = Some (invmat minfo')" by blast
  have "MMG5_InvMat_getTag (invmat minfo') (rin pm) = Some MG_MINUS \<and>
        MMG5_InvMat_getParent (invmat minfo') (rin pm) = Some (ref pm)"
    if sp: "mat minfo = pre @ pm # post" and d: "dospl pm" and ne': "rin pm \<noteq> rex pm"
      and later: "\<forall>b\<in>set post. rin pm \<notin> set (declared b)"
    for pre pm post
  proof -
    from f have "fill_loop pim0 (pre @ pm # post) = Some (invmat minfo')"
      by (simp add: sp)
    then have s: "slot (invmat minfo') (rin pm) = Some (4 * (ref pm + 1) + MG_MINUS)"
      using d ne' later by (rule later_wins_rin)
    have "pm \<in> set (mat minfo)" by (simp add: sp)
    with small have r0: "0 \<le> ref pm"
      by (auto simp: declared_def packable_def)
    show ?thesis
      using s unpack_tag [OF r0, of MG_MINUS] unpack_parent [OF r0, of MG_MINUS]
      by (simp add: getTag_slot getParent_slot)
  qed
  with built show ?thesis by blast
qed

theorem init_without_validation_witness:
  "mat info_dup \<noteq> [] \<and> nmat info_dup \<le> nmati info_dup \<and>
   MMG5_MultiMat_init alloc_always info_dup = Return (1, built_dup) \<and>
   MMG5_InvMat_getTag (invmat built_dup) 10 = Some MG_MINUS \<and>
   MMG5_InvMat_getParent (invmat built_dup) 10 = Some 2"
proof -
  have m: "mat info_dup = mats_dup"
    by (simp add: info_dup_def)
  have h1: "mat info_dup \<noteq> []"
    by (simp add: m mats_dup_def)
  have h2: "nmat info_dup \<le> nmati info_dup"
    by (simp add: nmat_def info_dup_def mats_dup_def)
  have h3: "\<forall>n. alloc_always n"
    by (simp add: alloc_always_def)
  have h4: "\<forall>pm\<in>set (mat info_dup). \<forall>r\<in>set (declared pm). packable r"
    by (simp add: m mats_dup_def declared_def children_def packable_def MG_MINUS_def INT_MAX_def)
  from init_without_validation [OF h1 h2 h3 h4] obtain minfo' where
    b: "MMG5_MultiMat_init alloc_always info_dup = Return (1, minfo')"
    and w: "\<forall>pre pm post.
        mat info_dup = pre @ pm # post \<and> dospl pm \<and> rin pm \<noteq> rex pm \<and>
        (\<forall>b\<in>set post. rin pm \<notin> set (declared b)) \<longrightarrow>
        MMG5_InvMat_getTag (invmat minfo') (rin pm) = Some MG_MINUS \<and>
        MMG5_InvMat_getParent (invmat minfo') (rin pm) = Some (ref pm)"
    by blast
  from b have eq: "minfo' = built_dup"
    by (simp add: init_dup)
  have sp: "mat info_dup =
      [\<lparr>ref = 1, dospl = True, rin = 10, rex = 11\<rparr>] @
      \<lparr>ref = 2, dospl = True, rin = 10, rex = 12\<rparr> # []"
    by (simp add: m mats_dup_def)
  from w [rule_format, of "[\<lparr>ref = 1, dospl = True, rin = 10, rex = 11\<rparr>]"
      "\<lparr>ref = 2, dospl = True, rin = 10, rex = 12\<rparr>" "[]"] sp
  have "MMG5_InvMat_getTag (invmat minfo') 10 = Some MG_MINUS \<and>
        MMG5_InvMat_getParent (invmat minfo') 10 = Some 2"
    by simp
  with h1 h2 init_dup eq show ?thesis by blast
qed

text \<open>
  Claim C9: for every interpolation on an edge tagged boundary and not ridge, in a
  tetrahedron of which neither face next to the edge is tagged boundary, the call
  returns \<open>- 1\<close>, which is neither the value 1 of a success nor the value 0 of a
  failure, and the metric, the six entries of the new point among it, is as before.
\<close>

theorem boundary_edge_defer:
  assumes bdy_tetra: "xt (tetra mesh k) \<noteq> 0"
    and not_ridge: "tag (xtetra mesh (xt (tetra mesh k))) ! i AND MG_GEO env = 0"
    and boundary: "tag (xtetra mesh (xt (tetra mesh k))) ! i AND MG_BDY env \<noteq> 0"
    and face0: "ftag (xtetra mesh (xt (tetra mesh k))) ! ifar env i 0 AND MG_BDY env = 0"
    and face1: "ftag (xtetra mesh (xt (tetra mesh k))) ! ifar env i 1 AND MG_BDY env = 0"
  shows "MMG5_intmet_ani env mesh met k i ip s = Return (- 1, met) \<and>
         (- 1 :: int) \<noteq> 1 \<and> (- 1 :: int) \<noteq> 0"
proof -
  have "MMG5_intregmet env mesh met k i s (6 * ip) = Return (- 1, met)"
    using face0 face1 by (simp add: MMG5_intregmet_def Let_def)
  moreover have "MMG5_intmet_ani env mesh met k i ip s = MMG5_intregmet env mesh met k i s (6 * ip)"
    using bdy_tetra not_ridge boundary by (simp add: MMG5_intmet_ani_def Let_def)
  ultimately show ?thesis by simp
qed

theorem boundary_edge_defer_witness:
  "xt (tetra (mesh_ex 1 16) 0) \<noteq> 0 \<and>
   tag (xtetra (mesh_ex 1 16) (xt (tetra (mesh_ex 1 16) 0))) ! 0 AND MG_GEO env_ex = 0 \<and>
   tag (xtetra (mesh_ex 1 16) (xt (tetra (mesh_ex 1 16) 0))) ! 0 AND MG_BDY env_ex \<noteq> 0 \<and>
   MMG5_intmet_ani env_ex (mesh_ex 1 16) (met_ex 7) 0 0 5 (1 / 2) = Return (- 1, met_ex 7)"
proof -
  have h1: "xt (tetra (mesh_ex 1 16) 0) \<noteq> 0"
    by (simp add: mesh_ex_def)
  have h2: "tag (xtetra (mesh_ex 1 16) (xt (tetra (mesh_ex 1 16) 0))) ! 0 AND MG_GEO env_ex = 0"
    by (simp add: mesh_ex_def env_ex_def)
  have h3: "tag (xtetra (mesh_ex 1 16) (xt (tetra (mesh_ex 1 16) 0))) ! 0 AND MG_BDY env_ex \<noteq> 0"
    by (simp add: mesh_ex_def env_ex_def)
  have h4: "ftag (xtetra (mesh_ex 1 16) (xt (tetra (mesh_ex 1 16) 0))) ! ifar env_ex 0 0
      AND MG_BDY env_ex = 0"
    by (simp add: mesh_ex_def env_ex_def)
  have h5: "ftag (xtetra (mesh_ex 1 16) (xt (tetra (mesh_ex 1 16) 0))) ! ifar env_ex 0 1
      AND MG_BDY env_ex = 0"
    by (simp add: mesh_ex_def env_ex_def)
  from boundary_edge_defer [OF h1 h2 h3 h4 h5, of "met_ex 7" 5 "1 / 2"] h1 h2 h3
  show ?thesis by blast
qed

text \<open>
  Claim C10: after the table is built, a reference inside its range that no material
  declares as its original reference or as a child has the entry 0 of the
  allocation: its role is NONE (0), its parent is \<open>- 1\<close>, and \<open>MMG5_getIniRef\<close>
  returns it unchanged.
\<close>

theorem undeclared_in_range:
  assumes built: "MMG5_MultiMat_init alloc minfo = Return (1, minfo')"
    and ne: "mat minfo \<noteq> []"
    and inr: "in_table (invmat minfo') r"
    and und: "\<forall>pm\<in>set (mat minfo). r \<notin> set (declared pm)"
  shows "MMG5_InvMat_getTag (invmat minfo') r = Some 0 \<and>
         MMG5_InvMat_getParent (invmat minfo') r = Some (- 1) \<and>
         MMG5_getIniRef minfo' r = Some r"
proof -
  have s: "slot (invmat minfo') r = Some 0"
    using built ne inr und by (rule init_untouched)
  from init_built [OF built ne] have "mat minfo' \<noteq> []"
    using ne by auto
  with s show ?thesis
    by (simp add: getTag_slot getParent_slot MMG5_getIniRef_def nmat_def c_mod_def c_div_def)
qed

theorem undeclared_in_range_witness:
  "MMG5_MultiMat_init alloc_always info_ex = Return (1, built_ex) \<and>
   mat info_ex \<noteq> [] \<and> in_table (invmat built_ex) 5 \<and>
   MMG5_InvMat_getTag (invmat built_ex) 5 = Some 0 \<and>
   MMG5_InvMat_getParent (invmat built_ex) 5 = Some (- 1) \<and>
   MMG5_getIniRef built_ex 5 = Some 5"
proof -
  have h1: "MMG5_MultiMat_init alloc_always info_ex = Return (1, built_ex)"
    by (rule init_ex)
  have h2: "mat info_ex \<noteq> []"
    by (simp add: mat_info_ex mats_ex_def)
  have h3: "in_table (invmat built_ex) 5"
    by (simp add: in_table_def built_ex_def)
  have h4: "\<forall>pm\<in>set (mat info_ex). 5 \<notin> set (declared pm)"
    by (simp add: mat_info_ex mats_ex_def declared_def children_def)
  from undeclared_in_range [OF h1 h2 h3 h4] h1 h2 h3 show ?thesis by blast
qed

end
